theory Spec2Isabelle
  imports Main
begin

section \<open>Python objects observed by \<^verbatim>\<open>Pypable/typing.py\<close>\<close>

text \<open>
  The module under study is reflection glue: it reads attributes of classes and objects,
  looks names up in module namespaces, calls \<^verbatim>\<open>type()\<close>, \<^verbatim>\<open>issubclass()\<close> and
  the builtin \<^verbatim>\<open>isinstance()\<close>.  The embedding therefore starts with the part of the
  Python object model those operations observe.

  Exceptions are values.  A \<^verbatim>\<open>KeyError\<close> and an \<^verbatim>\<open>AttributeError\<close> carry the
  name that was not found; a \<^verbatim>\<open>TypeError\<close> carries the reason it was raised.
\<close>

datatype reason =
    UnexpectedKeyword string
  | MultipleValues string
  | NotAClass
  | NotIterable
  | BadClassInfo
  | ParameterizedGeneric
  | DuplicateBase
  | InconsistentMRO
  | NotADict
  | NotRuntimeProtocol

datatype error =
    KeyError string
  | AttributeError string
  | TypeError reason

text \<open>
  A class object has an identity (\<open>cid\<close>; Python's \<^verbatim>\<open>is\<close> compares identities), its
  \<^verbatim>\<open>__name__\<close>, \<^verbatim>\<open>__qualname__\<close> and \<^verbatim>\<open>__module__\<close> (absent when \<open>None\<close>),
  its \<^verbatim>\<open>__bases__\<close>, its \<^verbatim>\<open>__mro__\<close> as the identities of the classes on it (the
  class itself first) and the namespace dictionary it was created from.

  Values are the builtin scalars and containers, class objects, functions and methods
  (of which only \<^verbatim>\<open>__module__\<close> and \<^verbatim>\<open>__qualname__\<close> are observed) and instances of
  other classes, which carry the elements they yield when they are iterable.
\<close>

datatype pyclass =
  PyClass (cid: nat) (cname: string) (cqualname: string) (cmodule: "string option")
          (cbases: "pyclass list") (cmro: "nat list") (cattrs: "(pyval \<times> pyval) list")
and pyval =
    VNone
  | VBool bool
  | VInt int
  | VStr string
  | VList "pyval list"
  | VTuple "pyval list"
  | VDict "(pyval \<times> pyval) list"
  | VClass pyclass
  | VFunction "string option" string
  | VInstance pyclass "pyval list option"

text \<open>The builtin classes that are the runtime classes of the values above.\<close>

definition builtin_class :: "nat \<Rightarrow> string \<Rightarrow> pyclass list \<Rightarrow> nat list \<Rightarrow> pyclass" where
  "builtin_class i n bs m = PyClass i n n (Some ''builtins'') bs m []"

definition object_cls :: pyclass where
  "object_cls = builtin_class 0 ''object'' [] [0]"

definition type_cls :: pyclass where
  "type_cls = builtin_class 1 ''type'' [object_cls] [1, 0]"

definition NoneType_cls :: pyclass where
  "NoneType_cls = builtin_class 2 ''NoneType'' [object_cls] [2, 0]"

definition int_cls :: pyclass where
  "int_cls = builtin_class 3 ''int'' [object_cls] [3, 0]"

definition bool_cls :: pyclass where
  "bool_cls = builtin_class 4 ''bool'' [int_cls] [4, 3, 0]"

definition str_cls :: pyclass where
  "str_cls = builtin_class 5 ''str'' [object_cls] [5, 0]"

definition list_cls :: pyclass where
  "list_cls = builtin_class 6 ''list'' [object_cls] [6, 0]"

definition tuple_cls :: pyclass where
  "tuple_cls = builtin_class 7 ''tuple'' [object_cls] [7, 0]"

definition dict_cls :: pyclass where
  "dict_cls = builtin_class 8 ''dict'' [object_cls] [8, 0]"

definition function_cls :: pyclass where
  "function_cls = builtin_class 9 ''function'' [object_cls] [9, 0]"

text \<open>\<^verbatim>\<open>obj.__class__\<close>.\<close>

fun type_of :: "pyval \<Rightarrow> pyclass" where
  "type_of VNone = NoneType_cls"
| "type_of (VBool b) = bool_cls"
| "type_of (VInt i) = int_cls"
| "type_of (VStr s) = str_cls"
| "type_of (VList xs) = list_cls"
| "type_of (VTuple xs) = tuple_cls"
| "type_of (VDict kvs) = dict_cls"
| "type_of (VClass c) = type_cls"
| "type_of (VFunction m q) = function_cls"
| "type_of (VInstance c it) = c"

text \<open>Truth value of an object, as \<^verbatim>\<open>x or y\<close> tests it.\<close>

fun truthy :: "pyval \<Rightarrow> bool" where
  "truthy VNone = False"
| "truthy (VBool b) = b"
| "truthy (VInt i) = (i \<noteq> 0)"
| "truthy (VStr s) = (s \<noteq> [])"
| "truthy (VList xs) = (xs \<noteq> [])"
| "truthy (VTuple xs) = (xs \<noteq> [])"
| "truthy (VDict kvs) = (kvs \<noteq> [])"
| "truthy (VClass c) = True"
| "truthy (VFunction m q) = True"
| "truthy (VInstance c it) = True"

text \<open>
  The elements \<^verbatim>\<open>iter(obj)\<close> yields, or \<open>None\<close> when the object is not iterable
  (\<^verbatim>\<open>iter\<close> raises \<^verbatim>\<open>TypeError\<close>).  A string yields its characters as strings,
  a dictionary its keys.
\<close>

fun py_iter :: "pyval \<Rightarrow> pyval list option" where
  "py_iter (VStr s) = Some (map (\<lambda>c. VStr [c]) s)"
| "py_iter (VList xs) = Some xs"
| "py_iter (VTuple xs) = Some xs"
| "py_iter (VDict kvs) = Some (map fst kvs)"
| "py_iter (VInstance c it) = it"
| "py_iter VNone = None"
| "py_iter (VBool b) = None"
| "py_iter (VInt i) = None"
| "py_iter (VClass c) = None"
| "py_iter (VFunction m q) = None"

text \<open>
  \<^verbatim>\<open>issubclass(c, m)\<close> for two classes: \<open>m\<close> is on the method resolution order of
  \<open>c\<close>.  With a tuple of classes as second argument the builtin answers whether \<open>c\<close> is
  a subclass of \<^emph>\<open>some\<close> entry; for the empty tuple it answers \<open>False\<close>.
\<close>

definition issubclass :: "pyclass \<Rightarrow> pyclass \<Rightarrow> bool" where
  "issubclass c m = (cid m \<in> set (cmro c))"

definition issubclass_tuple :: "pyclass \<Rightarrow> pyclass list \<Rightarrow> bool" where
  "issubclass_tuple c ms = list_ex (issubclass c) ms"

subsection \<open>Strings\<close>

text \<open>
  \<^verbatim>\<open>str.title()\<close> walks the string once: a cased character is upper-cased when the
  character before it is not cased (or there is none) and lower-cased when it is; any
  other character is kept.  Names are taken to be ASCII, where the cased characters are
  the letters.
\<close>

definition is_upper :: "char \<Rightarrow> bool" where
  "is_upper c = (65 \<le> (of_char c :: nat) \<and> (of_char c :: nat) \<le> 90)"

definition is_lower :: "char \<Rightarrow> bool" where
  "is_lower c = (97 \<le> (of_char c :: nat) \<and> (of_char c :: nat) \<le> 122)"

definition is_cased :: "char \<Rightarrow> bool" where
  "is_cased c = (is_upper c \<or> is_lower c)"

definition to_upper :: "char \<Rightarrow> char" where
  "to_upper c = (if is_lower c then char_of ((of_char c :: nat) - 32) else c)"

definition to_lower :: "char \<Rightarrow> char" where
  "to_lower c = (if is_upper c then char_of ((of_char c :: nat) + 32) else c)"

fun title_from :: "bool \<Rightarrow> string \<Rightarrow> string" where
  "title_from previous_is_cased [] = []"
| "title_from previous_is_cased (c # cs) =
     (if is_cased c
      then (if previous_is_cased then to_lower c else to_upper c) # title_from True cs
      else c # title_from False cs)"

definition title :: "string \<Rightarrow> string" where
  "title s = title_from False s"

subsection \<open>Creating a class: \<^verbatim>\<open>type(name, bases, dict)\<close>\<close>

text \<open>
  The method resolution order of a new class is the C3 merge of the orders of its bases
  and of the list of bases itself: repeatedly take the first head that occurs in no tail.
  The merge fails when no head qualifies.
\<close>

definition c3_step :: "nat list list \<Rightarrow> nat \<Rightarrow> nat list list" where
  "c3_step ss h = map (\<lambda>s. if hd s = h then tl s else s) ss"

definition c3_candidate :: "nat list list \<Rightarrow> nat option" where
  "c3_candidate ss = find (\<lambda>h. list_all (\<lambda>s. h \<notin> set (tl s)) ss) (map hd ss)"

function c3_merge :: "nat list list \<Rightarrow> nat list option" where
  "c3_merge seqs =
     (let ss = filter (\<lambda>s. s \<noteq> []) seqs in
      if ss = [] then Some []
      else (case c3_candidate ss of
              None \<Rightarrow> None
            | Some h \<Rightarrow> map_option ((#) h) (c3_merge (c3_step ss h))))"
  by pat_completeness auto
termination c3_merge
proof (relation "measure (\<lambda>seqs. sum_list (map length seqs))")
  show "wf (measure (\<lambda>seqs :: nat list list. sum_list (map length seqs)))"
    by simp
next
  fix seqs ss :: "nat list list" and h
  assume ss: "ss = filter (\<lambda>s. s \<noteq> []) seqs" and c: "c3_candidate ss = Some h"
  have le: "sum_list (map length (c3_step ts h)) \<le> sum_list (map length ts)" for ts
    by (induction ts) (auto simp: c3_step_def)
  have less: "h \<in> set (map hd ts) \<Longrightarrow> \<forall>s\<in>set ts. s \<noteq> [] \<Longrightarrow>
      sum_list (map length (c3_step ts h)) < sum_list (map length ts)" for ts
  proof (induction ts)
    case Nil
    then show ?case by simp
  next
    case (Cons t ts)
    show ?case
    proof (cases "hd t = h")
      case True
      with Cons.prems le [of ts] show ?thesis
        by (cases t) (auto simp: c3_step_def)
    next
      case False
      with Cons show ?thesis
        by (auto simp: c3_step_def)
    qed
  qed
  have filtered: "sum_list (map length (filter (\<lambda>s. s \<noteq> []) us)) \<le> sum_list (map length us)"
    for us :: "nat list list"
    by (induction us) auto
  from c have "h \<in> set (map hd ss)"
    unfolding c3_candidate_def by (auto simp: find_Some_iff)
  with ss have "sum_list (map length (c3_step ss h)) < sum_list (map length ss)"
    by (intro less) auto
  with filtered [of seqs] ss
  show "(c3_step ss h, seqs) \<in> measure (\<lambda>seqs. sum_list (map length seqs))"
    by simp
qed

declare c3_merge.simps [simp del]

subsection \<open>The interpreter state\<close>

text \<open>
  \<^verbatim>\<open>sys.modules\<close> maps a module name to the module's namespace, a dictionary from
  attribute names to objects.  \<open>next_id\<close> is the identity the next object created
  receives, so that a new object is distinct from every object created before it.
  \<open>this_module\<close> is the \<^verbatim>\<open>__name__\<close> of \<^verbatim>\<open>Pypable/typing.py\<close>.
\<close>

type_synonym namespace = "string \<rightharpoonup> pyval"

record state =
  sys_modules :: "string \<rightharpoonup> namespace"
  next_id :: nat

definition this_module :: string where
  "this_module = ''Pypable.typing''"

text \<open>
  \<^verbatim>\<open>type(name, bases, dict)\<close>: the third argument must be a dictionary, a base may not
  occur twice and the bases must have a consistent linearisation.  The new class is a
  new object; \<^verbatim>\<open>type\<close> returns it and binds no name in any namespace.  Its
  \<^verbatim>\<open>__module__\<close> is the \<^verbatim>\<open>__name__\<close> of the module whose code called \<^verbatim>\<open>type\<close>.
  Every class is taken to be an ordinary class whose metaclass is \<^verbatim>\<open>type\<close>.
\<close>

definition py_type :: "string \<Rightarrow> pyclass list \<Rightarrow> pyval \<Rightarrow> state \<Rightarrow> (error + pyclass) \<times> state" where
  "py_type name bases dict s =
     (case dict of
        VDict kvs \<Rightarrow>
          if \<not> distinct (map cid bases) then (Inl (TypeError DuplicateBase), s)
          else (case c3_merge (map cmro bases @ [map cid bases]) of
                  None \<Rightarrow> (Inl (TypeError InconsistentMRO), s)
                | Some m \<Rightarrow>
                    (Inr (PyClass (next_id s) name name (Some this_module) bases (next_id s # m) kvs),
                     s\<lparr>next_id := Suc (next_id s)\<rparr>))
      | _ \<Rightarrow> (Inl (TypeError NotADict), s))"

section \<open>\<^verbatim>\<open>extend_class\<close>\<close>

text \<open>
  \<^verbatim>\<open>{ name: obj for name, obj in inspect.getmembers(sys.modules[__name__])
     if inspect.isclass(obj) }\<close>: the names of the module's namespace that are bound to
  class objects.
\<close>

definition classes_in_frame :: "namespace \<Rightarrow> (string \<rightharpoonup> pyclass)" where
  "classes_in_frame ns = (\<lambda>name. case ns name of Some (VClass c) \<Rightarrow> Some c | _ \<Rightarrow> None)"

text \<open>
  The function follows the source line by line: build the table of classes; replace a
  string (a \<open>VStr\<close>; instances of subclasses of \<^verbatim>\<open>str\<close> are not represented) by
  the class of that name (\<^verbatim>\<open>KeyError\<close> when there is none); return the class
  itself when \<^verbatim>\<open>issubclass(cls, mixins)\<close> holds (a \<^verbatim>\<open>TypeError\<close> when \<open>cls\<close> is no
  class); compute the name; return the class the table has under that name, if any;
  otherwise call \<^verbatim>\<open>type\<close> and return its result.
\<close>

definition extend_class :: "pyval \<Rightarrow> pyclass list \<Rightarrow> pyval \<Rightarrow> state \<Rightarrow> (error + pyclass) \<times> state" where
  "extend_class cls mixins attrs s =
     (case sys_modules s this_module of
        None \<Rightarrow> (Inl (KeyError this_module), s)
      | Some ns \<Rightarrow>
          (case (case cls of
                   VStr n \<Rightarrow> (case classes_in_frame ns n of
                                 None \<Rightarrow> Inl (KeyError n)
                               | Some c \<Rightarrow> Inr (VClass c))
                 | _ \<Rightarrow> Inr cls) of
             Inl e \<Rightarrow> (Inl e, s)
           | Inr (VClass c) \<Rightarrow>
               if issubclass_tuple c mixins then (Inr c, s)
               else
                 (let mixin_names = map (\<lambda>mixin. title (cname mixin)) mixins;
                      extension_name = concat mixin_names @ title (cname c)
                  in case classes_in_frame ns extension_name of
                       Some existing \<Rightarrow> (Inr existing, s)
                     | None \<Rightarrow>
                         py_type extension_name (mixins @ [c])
                           (if truthy attrs then attrs else VDict []) s)
           | Inr _ \<Rightarrow> (Inl (TypeError NotAClass), s)))"

section \<open>\<^verbatim>\<open>get_parent_class\<close> and \<^verbatim>\<open>wrap_object\<close>\<close>

text \<open>
  \<^verbatim>\<open>obj.__module__\<close> and \<^verbatim>\<open>obj.__qualname__\<close>, with \<open>None\<close> when the attribute is
  missing or is \<^verbatim>\<open>None\<close>.  Classes and functions have both.  An instance of a class
  made by a \<^verbatim>\<open>class\<close> statement or by \<^verbatim>\<open>type\<close> finds \<^verbatim>\<open>__module__\<close> in the
  namespace of its class and has no \<^verbatim>\<open>__qualname__\<close>; a builtin scalar or container
  has neither.
\<close>

fun attr_module :: "pyval \<Rightarrow> string option" where
  "attr_module (VClass c) = cmodule c"
| "attr_module (VFunction m q) = m"
| "attr_module (VInstance c it) = cmodule c"
| "attr_module VNone = None"
| "attr_module (VBool b) = None"
| "attr_module (VInt i) = None"
| "attr_module (VStr s) = None"
| "attr_module (VList xs) = None"
| "attr_module (VTuple xs) = None"
| "attr_module (VDict kvs) = None"

fun attr_qualname :: "pyval \<Rightarrow> string option" where
  "attr_qualname (VClass c) = Some (cqualname c)"
| "attr_qualname (VFunction m q) = Some q"
| "attr_qualname (VInstance c it) = None"
| "attr_qualname VNone = None"
| "attr_qualname (VBool b) = None"
| "attr_qualname (VInt i) = None"
| "attr_qualname (VStr s) = None"
| "attr_qualname (VList xs) = None"
| "attr_qualname (VTuple xs) = None"
| "attr_qualname (VDict kvs) = None"

text \<open>\<^verbatim>\<open>s.split(sep, 1)[0]\<close>: the part of \<open>s\<close> before the first occurrence of \<open>sep\<close>.\<close>

fun split_head :: "string \<Rightarrow> string \<Rightarrow> string" where
  "split_head sep [] = []"
| "split_head sep (c # cs) =
     (if take (length sep) (c # cs) = sep then [] else c # split_head sep cs)"

text \<open>\<^verbatim>\<open>s.rsplit('.', 1)[0]\<close>: the part of \<open>s\<close> before its last dot, or \<open>s\<close>.\<close>

definition rsplit_head :: "string \<Rightarrow> string" where
  "rsplit_head s =
     (if CHR ''.'' \<in> set s then rev (tl (dropWhile (\<lambda>c. c \<noteq> CHR ''.'') (rev s))) else s)"

definition owner_name :: "string \<Rightarrow> string" where
  "owner_name qualname = rsplit_head (split_head ''.<locals>'' qualname)"

text \<open>\<^verbatim>\<open>getattr(sys.modules[m], name)\<close>.\<close>

definition module_getattr :: "state \<Rightarrow> string \<Rightarrow> string \<Rightarrow> error + pyval" where
  "module_getattr s m name =
     (case sys_modules s m of
        None \<Rightarrow> Inl (KeyError m)
      | Some ns \<Rightarrow> (case ns name of None \<Rightarrow> Inl (AttributeError name) | Some v \<Rightarrow> Inr v))"

definition get_parent_class :: "pyval \<Rightarrow> state \<Rightarrow> error + pyval" where
  "get_parent_class obj s =
     (case attr_module obj of
        Some m \<Rightarrow>
          (case sys_modules s m of
             None \<Rightarrow> Inl (KeyError m)
           | Some ns \<Rightarrow>
               (case attr_qualname obj of
                  None \<Rightarrow> Inl (AttributeError ''__qualname__'')
                | Some q \<Rightarrow> module_getattr s m (owner_name q)))
      | None \<Rightarrow>
          (case attr_qualname obj of
             Some q \<Rightarrow> module_getattr s ''builtins'' (owner_name q)
           | None \<Rightarrow> Inr (VClass (type_of obj))))"

text \<open>
  \<^verbatim>\<open>extend_class(cls, *mixins, **attrs)\<close> passes the entries of \<open>attrs\<close> as keyword
  arguments.  The signature \<^verbatim>\<open>(cls, *mixins, attrs=None)\<close> binds them in order: the
  keyword \<^verbatim>\<open>attrs\<close> is the one keyword parameter, \<^verbatim>\<open>cls\<close> is already bound by the
  positional argument, and any other keyword matches no parameter.
\<close>

fun bind_keywords :: "(string \<times> pyval) list \<Rightarrow> pyval \<Rightarrow> error + pyval" where
  "bind_keywords [] attrs = Inr attrs"
| "bind_keywords ((k, v) # kwargs) attrs =
     (if k = ''attrs'' then bind_keywords kwargs v
      else if k = ''cls'' then Inl (TypeError (MultipleValues k))
      else Inl (TypeError (UnexpectedKeyword k)))"

text \<open>
  A call \<^verbatim>\<open>wrap_object(obj, *mixins, **kwargs)\<close> first binds the function's own
  signature \<^verbatim>\<open>(__obj, *mixins, **attrs)\<close>.  The positional argument binds the first
  parameter, so a keyword \<^verbatim>\<open>__obj\<close> is a second value for it and the call raises
  before the body runs; all other keywords become the dictionary \<open>attrs\<close>.  The body
  calls \<^verbatim>\<open>get_parent_class\<close> and then \<^verbatim>\<open>extend_class(cls, *mixins, **attrs)\<close>.

  \<open>construct c obj\<close> stands for the call \<^verbatim>\<open>c(obj)\<close> of the class that
  \<^verbatim>\<open>extend_class\<close> returned; what it does is up to the constructors of the classes
  involved, so it is a parameter.
\<close>

definition wrap_object ::
  "(pyclass \<Rightarrow> pyval \<Rightarrow> error + pyval) \<Rightarrow> pyval \<Rightarrow> pyclass list \<Rightarrow> (string \<times> pyval) list \<Rightarrow> state
     \<Rightarrow> (error + pyval) \<times> state" where
  "wrap_object construct obj mixins kwargs s =
     (if ''__obj'' \<in> set (map fst kwargs)
      then (Inl (TypeError (MultipleValues ''__obj'')), s)
      else
        (case get_parent_class obj s of
           Inl e \<Rightarrow> (Inl e, s)
         | Inr cls \<Rightarrow>
             (case bind_keywords kwargs VNone of
                Inl e \<Rightarrow> (Inl e, s)
              | Inr attrs_arg \<Rightarrow>
                  (case extend_class cls mixins attrs_arg s of
                     (Inl e, s') \<Rightarrow> (Inl e, s')
                   | (Inr c, s') \<Rightarrow> (construct c obj, s')))))"

section \<open>The relaxed \<^verbatim>\<open>isinstance\<close>\<close>

text \<open>
  The second argument of \<^verbatim>\<open>isinstance\<close> is a class, a list or a tuple of type
  specifications, a \<^verbatim>\<open>typing.Union\<close>, a subscripted generic such as
  \<^verbatim>\<open>list[int]\<close> or \<^verbatim>\<open>Sequence[int]\<close> (a class as origin, with type arguments), a
  \<^verbatim>\<open>typing.Literal\<close> (subscripted, but its origin is no class), or some other object
  that is no type and supports no instance check, such as \<^verbatim>\<open>...\<close> in
  \<^verbatim>\<open>tuple[int, ...]\<close>, a type variable, a string or \<^verbatim>\<open>typing.Any\<close>.  The
  unsubscripted aliases of the \<^verbatim>\<open>typing\<close> module are not represented.
\<close>

datatype typespec =
    TClass pyclass
  | TList "typespec list"
  | TTuple "typespec list"
  | TUnion "typespec list"
  | TGeneric pyclass "typespec list"
  | TLiteral "pyval list"
  | TOther

datatype origin = OriginUnion | OriginClass pyclass | OriginLiteral

fun get_origin :: "typespec \<Rightarrow> origin option" where
  "get_origin (TUnion ts) = Some OriginUnion"
| "get_origin (TGeneric c ts) = Some (OriginClass c)"
| "get_origin (TLiteral vs) = Some OriginLiteral"
| "get_origin (TClass c) = None"
| "get_origin (TList ts) = None"
| "get_origin (TTuple ts) = None"
| "get_origin TOther = None"

fun get_args :: "typespec \<Rightarrow> typespec list" where
  "get_args (TUnion ts) = ts"
| "get_args (TGeneric c ts) = ts"
| "get_args (TLiteral vs) = map (\<lambda>v. TOther) vs"
| "get_args (TClass c) = []"
| "get_args (TList ts) = []"
| "get_args (TTuple ts) = []"
| "get_args TOther = []"

text \<open>The object \<^verbatim>\<open>get_origin\<close> returned, as a type specification.\<close>

fun origin_object :: "origin \<Rightarrow> typespec" where
  "origin_object (OriginClass c) = TClass c"
| "origin_object OriginUnion = TOther"
| "origin_object OriginLiteral = TOther"

text \<open>
  \<^verbatim>\<open>builtins.isinstance\<close> belongs to the interpreter, and two things it does are
  not fixed by the classes alone.  A class whose metaclass defines
  \<^verbatim>\<open>__instancecheck__\<close> decides by that hook: an abstract base class also accepts the
  instances of the classes registered with it (a list is a \<^verbatim>\<open>collections.abc.Sequence\<close>),
  and a protocol class that is not runtime-checkable raises \<^verbatim>\<open>TypeError\<close>.  And a
  \<^verbatim>\<open>typing.Union\<close> as second argument raises \<^verbatim>\<open>TypeError\<close> in Python 3.9 and is
  checked member by member in later versions.  Both are components of the runtime the
  functions are run in: \<open>instancecheck\<close> gives the hook of a class (\<open>None\<close> for a class
  whose metaclass is \<^verbatim>\<open>type\<close>) and \<open>union_instancecheck\<close> is the builtin on a union.
\<close>

record runtime =
  instancecheck :: "pyclass \<Rightarrow> (pyval \<Rightarrow> error + bool) option"
  union_instancecheck :: "pyval \<Rightarrow> typespec list \<Rightarrow> error + bool"

text \<open>
  \<^verbatim>\<open>builtins.isinstance(obj, c)\<close> for a class \<open>c\<close>: true at once when \<open>c\<close> is
  the very class of \<open>obj\<close>; otherwise the hook of \<open>c\<close> when it has one, and else
  whether \<open>c\<close> is on the method resolution order of the class of \<open>obj\<close>.
\<close>

definition class_instancecheck :: "runtime \<Rightarrow> pyval \<Rightarrow> pyclass \<Rightarrow> error + bool" where
  "class_instancecheck rt obj c =
     (if cid (type_of obj) = cid c then Inr True
      else (case instancecheck rt c of
              None \<Rightarrow> Inr (issubclass (type_of obj) c)
            | Some hook \<Rightarrow> hook obj))"

text \<open>
  \<^verbatim>\<open>builtins.isinstance(obj, t)\<close>, the standard check: the class check for a class;
  for a tuple, the entries in order until one holds; the runtime's answer for a union;
  a \<^verbatim>\<open>TypeError\<close> for a subscripted generic, for a list and for every object that
  is no type.
\<close>

fun builtin_isinstance :: "runtime \<Rightarrow> pyval \<Rightarrow> typespec \<Rightarrow> error + bool"
and builtin_isinstance_tuple :: "runtime \<Rightarrow> pyval \<Rightarrow> typespec list \<Rightarrow> error + bool" where
  "builtin_isinstance rt obj (TClass c) = class_instancecheck rt obj c"
| "builtin_isinstance rt obj (TTuple ts) = builtin_isinstance_tuple rt obj ts"
| "builtin_isinstance rt obj (TUnion ts) = union_instancecheck rt obj ts"
| "builtin_isinstance rt obj (TList ts) = Inl (TypeError BadClassInfo)"
| "builtin_isinstance rt obj (TGeneric c ts) = Inl (TypeError ParameterizedGeneric)"
| "builtin_isinstance rt obj (TLiteral vs) = Inl (TypeError BadClassInfo)"
| "builtin_isinstance rt obj TOther = Inl (TypeError BadClassInfo)"
| "builtin_isinstance_tuple rt obj [] = Inr False"
| "builtin_isinstance_tuple rt obj (t # ts) =
     (case builtin_isinstance rt obj t of
        Inl e \<Rightarrow> Inl e
      | Inr b \<Rightarrow> if b then Inr True else builtin_isinstance_tuple rt obj ts)"

text \<open>
  \<^verbatim>\<open>any(...)\<close> and \<^verbatim>\<open>all(...)\<close> over a generator: the items are computed one by
  one, the first decisive item ends the loop, and an exception raised on the way
  propagates.
\<close>

fun py_any :: "(error + bool) list \<Rightarrow> error + bool" where
  "py_any [] = Inr False"
| "py_any (Inl e # rs) = Inl e"
| "py_any (Inr b # rs) = (if b then Inr True else py_any rs)"

fun py_all :: "(error + bool) list \<Rightarrow> error + bool" where
  "py_all [] = Inr True"
| "py_all (Inl e # rs) = Inl e"
| "py_all (Inr b # rs) = (if b then py_all rs else Inr False)"

text \<open>
  The four branches of the source, in its order.  Each of them hands the value to
  \<^verbatim>\<open>builtins.isinstance\<close>; none calls the relaxed check again.  In the last branch
  the right operand of \<^verbatim>\<open>and\<close> is evaluated only when
  \<^verbatim>\<open>builtins.isinstance(obj, get_origin(typ))\<close> holds, and \<^verbatim>\<open>zip\<close> needs an
  iterable \<open>obj\<close>.
\<close>

definition isinstance :: "runtime \<Rightarrow> pyval \<Rightarrow> typespec \<Rightarrow> error + bool" where
  "isinstance rt obj typ =
     (case typ of
        TList ts \<Rightarrow> py_any (map (builtin_isinstance rt obj) ts)
      | TTuple ts \<Rightarrow> py_any (map (builtin_isinstance rt obj) ts)
      | _ \<Rightarrow>
         (case get_origin typ of
            None \<Rightarrow> builtin_isinstance rt obj typ
          | Some orig \<Rightarrow>
              (case orig of
                 OriginUnion \<Rightarrow> py_any (map (builtin_isinstance rt obj) (get_args typ))
               | _ \<Rightarrow>
                   (case builtin_isinstance rt obj (origin_object orig) of
                      Inl e \<Rightarrow> Inl e
                    | Inr b \<Rightarrow>
                        if b
                        then (case py_iter obj of
                                None \<Rightarrow> Inl (TypeError NotIterable)
                              | Some xs \<Rightarrow>
                                  py_all (map (\<lambda>(arg, typ_arg). builtin_isinstance rt arg typ_arg)
                                              (zip xs (get_args typ))))
                        else Inr False))))"

section \<open>\<^verbatim>\<open>class_path\<close>\<close>

definition class_path :: "pyval \<Rightarrow> string" where
  "class_path obj =
     (let cls = type_of obj in
      case cmodule cls of
        Some module \<Rightarrow>
          if module \<notin> set [''builtins'', ''__builtin__'', ''__main__'']
          then module @ ''.'' @ cname cls
          else cname cls
      | None \<Rightarrow> cname cls)"

section \<open>The specification's wording\<close>

text \<open>
  The specification says that the name of a composite class is made of the names
  ``capitalized'': the first character in upper case and the others in lower case, as
  \<^verbatim>\<open>str.capitalize()\<close> does.
\<close>

definition capitalize :: "string \<Rightarrow> string" where
  "capitalize s = (case s of [] \<Rightarrow> [] | c # cs \<Rightarrow> to_upper c # map to_lower cs)"

definition spec_composite_name :: "pyclass list \<Rightarrow> pyclass \<Rightarrow> string" where
  "spec_composite_name mixins c = concat (map (\<lambda>m. capitalize (cname m)) mixins) @ capitalize (cname c)"





section \<open>A small program state\<close>

text \<open>
  Classes of an application module \<^verbatim>\<open>pkg.mod\<close>: \<open>Foo\<close>, the mixins \<open>Mix\<close>,
  \<open>Extra\<close> and \<open>my_mixin\<close>, and \<open>MixedFoo\<close>, written by hand as
  \<^verbatim>\<open>class MixedFoo(Mix, Foo)\<close>.  The namespace of \<^verbatim>\<open>Pypable.typing\<close> holds the
  class \<open>Placeholder\<close> next to names that are bound to functions and type aliases.
\<close>

definition user_class :: "nat \<Rightarrow> string \<Rightarrow> string \<Rightarrow> pyclass list \<Rightarrow> nat list \<Rightarrow> pyclass" where
  "user_class i n m bs mro = PyClass i n n (Some m) bs mro []"

definition Placeholder :: pyclass where
  "Placeholder = user_class 10 ''Placeholder'' this_module [object_cls] [10, 0]"

definition Foo :: pyclass where
  "Foo = user_class 20 ''Foo'' ''pkg.mod'' [object_cls] [20, 0]"

definition Mix :: pyclass where
  "Mix = user_class 21 ''Mix'' ''pkg.mod'' [object_cls] [21, 0]"

definition Extra :: pyclass where
  "Extra = user_class 22 ''Extra'' ''pkg.mod'' [object_cls] [22, 0]"

definition MixedFoo :: pyclass where
  "MixedFoo = user_class 23 ''MixedFoo'' ''pkg.mod'' [Mix, Foo] [23, 21, 20, 0]"

definition my_mixin :: pyclass where
  "my_mixin = user_class 24 ''my_mixin'' ''pkg.mod'' [object_cls] [24, 0]"

definition typing_ns :: namespace where
  "typing_ns =
     [''Placeholder'' \<mapsto> VClass Placeholder,
      ''extend_class'' \<mapsto> VFunction (Some this_module) ''extend_class'',
      ''StringList'' \<mapsto> VNone]"

definition pkg_mod_ns :: namespace where
  "pkg_mod_ns =
     [''Foo'' \<mapsto> VClass Foo, ''Mix'' \<mapsto> VClass Mix, ''Extra'' \<mapsto> VClass Extra,
      ''MixedFoo'' \<mapsto> VClass MixedFoo, ''my_mixin'' \<mapsto> VClass my_mixin]"

definition builtins_ns :: namespace where
  "builtins_ns =
     [''object'' \<mapsto> VClass object_cls, ''int'' \<mapsto> VClass int_cls, ''str'' \<mapsto> VClass str_cls,
      ''list'' \<mapsto> VClass list_cls, ''tuple'' \<mapsto> VClass tuple_cls]"

definition s0 :: state where
  "s0 = \<lparr>sys_modules = [this_module \<mapsto> typing_ns, ''pkg.mod'' \<mapsto> pkg_mod_ns,
                          ''builtins'' \<mapsto> builtins_ns],
         next_id = 100\<rparr>"

text \<open>
  The class \<^verbatim>\<open>type('MixFoo', (Mix, Foo), {})\<close> creates when it is the object with
  identity \<open>i\<close>, and the one \<^verbatim>\<open>type('My_MixinFoo', (my_mixin, Foo), {})\<close> creates as
  object 100.
\<close>

definition MixFoo_at :: "nat \<Rightarrow> pyclass" where
  "MixFoo_at i = PyClass i ''MixFoo'' ''MixFoo'' (Some this_module) [Mix, Foo] [i, 21, 20, 0] []"

definition My_MixinFoo :: pyclass where
  "My_MixinFoo =
     PyClass 100 ''My_MixinFoo'' ''My_MixinFoo'' (Some this_module) [my_mixin, Foo] [100, 24, 20, 0] []"

text \<open>A constructor that accepts the wrapped object and keeps what it iterates over.\<close>

definition retag :: "pyclass \<Rightarrow> pyval \<Rightarrow> error + pyval" where
  "retag c obj = Inr (VInstance c (py_iter obj))"

text \<open>
  The abstract base classes of \<^verbatim>\<open>collections.abc\<close> above
  \<^verbatim>\<open>Sequence\<close>, and \<open>Closable\<close>, a protocol class of \<^verbatim>\<open>pkg.mod\<close> that is not
  runtime-checkable, under the classes \<^verbatim>\<open>Generic\<close> and \<^verbatim>\<open>Protocol\<close> of
  \<^verbatim>\<open>typing\<close>.
\<close>

definition abc_class :: "nat \<Rightarrow> string \<Rightarrow> pyclass list \<Rightarrow> nat list \<Rightarrow> pyclass" where
  "abc_class i n bs m = PyClass i n n (Some ''collections.abc'') bs m []"

definition Iterable_cls :: pyclass where
  "Iterable_cls = abc_class 12 ''Iterable'' [object_cls] [12, 0]"

definition Sized_cls :: pyclass where
  "Sized_cls = abc_class 13 ''Sized'' [object_cls] [13, 0]"

definition Container_cls :: pyclass where
  "Container_cls = abc_class 14 ''Container'' [object_cls] [14, 0]"

definition Collection_cls :: pyclass where
  "Collection_cls =
     abc_class 15 ''Collection'' [Sized_cls, Iterable_cls, Container_cls] [15, 13, 12, 14, 0]"

definition Reversible_cls :: pyclass where
  "Reversible_cls = abc_class 16 ''Reversible'' [Iterable_cls] [16, 12, 0]"

definition Sequence_cls :: pyclass where
  "Sequence_cls =
     abc_class 11 ''Sequence'' [Reversible_cls, Collection_cls] [11, 16, 15, 13, 12, 14, 0]"

definition Generic_cls :: pyclass where
  "Generic_cls = user_class 17 ''Generic'' ''typing'' [object_cls] [17, 0]"

definition Protocol_cls :: pyclass where
  "Protocol_cls = user_class 18 ''Protocol'' ''typing'' [Generic_cls] [18, 17, 0]"

definition Closable :: pyclass where
  "Closable = user_class 25 ''Closable'' ''pkg.mod'' [Protocol_cls] [25, 18, 17, 0]"

text \<open>
  A runtime for these classes.  \<^verbatim>\<open>Sequence\<close> accepts the instances of its subclasses
  and of the classes registered with it, of which the values here have \<^verbatim>\<open>list\<close>,
  \<^verbatim>\<open>tuple\<close> and \<^verbatim>\<open>str\<close>; the check against \<open>Closable\<close> raises; every other
  class has no hook.  On a union the builtin raises, as in Python 3.9.
\<close>

definition sequence_hook :: "pyval \<Rightarrow> error + bool" where
  "sequence_hook obj =
     Inr (issubclass (type_of obj) Sequence_cls \<or>
          list_ex (issubclass (type_of obj)) [list_cls, tuple_cls, str_cls])"

definition rt0 :: runtime where
  "rt0 = \<lparr>instancecheck =
            (\<lambda>c. if cid c = cid Sequence_cls then Some sequence_hook
                 else if cid c = cid Closable then Some (\<lambda>obj. Inl (TypeError NotRuntimeProtocol))
                 else None),
          union_instancecheck = (\<lambda>obj ts. Inl (TypeError ParameterizedGeneric))\<rparr>"


section \<open>Evaluation on the small program state\<close>

lemma title_examples:
  "title ''Mix'' = ''Mix''" "title ''Foo'' = ''Foo''" "title ''Extra'' = ''Extra''"
  "title ''MixedFoo'' = ''Mixedfoo''" "title ''my_mixin'' = ''My_Mixin''"
  by code_simp+

lemma capitalize_examples:
  "capitalize ''my_mixin'' = ''My_mixin''" "capitalize ''Foo'' = ''Foo''"
  by code_simp+

lemma c3_examples:
  "c3_merge [[21, 0], [20, 0], [21, 20]] = Some [21, 20, 0]"
  "c3_merge [[24, 0], [20, 0], [24, 20]] = Some [24, 20, 0]"
  by code_simp+

lemmas class_defs = Foo_def Mix_def Extra_def MixedFoo_def my_mixin_def Placeholder_def
  user_class_def object_cls_def builtin_class_def int_cls_def str_cls_def list_cls_def
  tuple_cls_def

lemma s0_typing_ns: "sys_modules s0 this_module = Some typing_ns"
  by (simp add: s0_def this_module_def)

lemma s0_next_id: "next_id s0 = 100"
  by (simp add: s0_def)

lemma typing_ns_classes:
  "classes_in_frame typing_ns ''MixFoo'' = None"
  "classes_in_frame typing_ns ''My_MixinFoo'' = None"
  "classes_in_frame typing_ns ''StringList'' = None"
  "classes_in_frame typing_ns ''Placeholder'' = Some Placeholder"
  by (simp_all add: classes_in_frame_def typing_ns_def)

lemma Foo_not_Mix: "\<not> issubclass_tuple Foo [Mix]"
  by (simp add: issubclass_tuple_def issubclass_def class_defs)

lemma extend_Foo_Mix:
  "sys_modules s this_module = Some typing_ns \<Longrightarrow>
   extend_class (VClass Foo) [Mix] VNone s
     = (Inr (MixFoo_at (next_id s)), s\<lparr>next_id := Suc (next_id s)\<rparr>)"
  by (simp add: extend_class_def issubclass_tuple_def issubclass_def class_defs
      title_examples typing_ns_classes py_type_def c3_examples MixFoo_at_def Let_def)

lemma extend_Foo_my_mixin:
  "extend_class (VClass Foo) [my_mixin] VNone s0 = (Inr My_MixinFoo, s0\<lparr>next_id := 101\<rparr>)"
  by (simp add: extend_class_def issubclass_tuple_def issubclass_def class_defs s0_typing_ns
      s0_next_id title_examples typing_ns_classes py_type_def c3_examples My_MixinFoo_def Let_def)

section \<open>What \<^verbatim>\<open>type\<close> and \<^verbatim>\<open>extend_class\<close> do to the state\<close>

lemma py_type_result:
  "py_type name bases d s = (Inr c', s') \<Longrightarrow>
   cname c' = name \<and> cbases c' = bases \<and> cid c' = next_id s \<and>
   next_id s' = Suc (next_id s) \<and> sys_modules s' = sys_modules s"
  by (auto simp: py_type_def split: pyval.splits if_splits option.splits)

lemma py_type_error: "py_type name bases d s = (Inl e, s') \<Longrightarrow> s' = s"
  by (auto simp: py_type_def split: pyval.splits if_splits option.splits)

lemma extend_class_sys_modules:
  "extend_class cls mixins attrs s = (r, s') \<Longrightarrow> sys_modules s' = sys_modules s"
  by (auto simp: extend_class_def Let_def py_type_def
      split: option.splits pyval.splits sum.splits if_splits)

lemma extend_class_already_extended:
  "sys_modules s this_module = Some ns \<Longrightarrow> issubclass_tuple c mixins \<Longrightarrow>
   extend_class (VClass c) mixins attrs s = (Inr c, s)"
  by (simp add: extend_class_def)

text \<open>
  When a call has created a class, the same call in the state it left creates another
  one: a different object with the same name and the same bases.
\<close>

lemma py_type_state_independent:
  "py_type name bases d s = (Inr c1, s1) \<Longrightarrow> sys_modules s' = sys_modules s \<Longrightarrow>
   \<exists>c2. py_type name bases d s' = (Inr c2, s'\<lparr>next_id := Suc (next_id s')\<rparr>) \<and>
        cid c2 = next_id s' \<and> cname c2 = cname c1 \<and> cbases c2 = cbases c1"
  by (auto simp: py_type_def split: pyval.splits if_splits option.splits)

lemma extend_class_second_call_new_object:
  assumes "extend_class cls mixins attrs s = (Inr c1, s1)" and "next_id s1 \<noteq> next_id s"
  shows "\<exists>c2 s2. extend_class cls mixins attrs s1 = (Inr c2, s2) \<and> cid c2 \<noteq> cid c1 \<and>
                 cname c2 = cname c1 \<and> cbases c2 = cbases c1"
proof -
  from assms obtain ns c where ns: "sys_modules s this_module = Some ns"
    and c: "cls = VClass c \<or> (\<exists>n. cls = VStr n \<and> classes_in_frame ns n = Some c)"
    and sub: "\<not> issubclass_tuple c mixins"
    and tab: "classes_in_frame ns (concat (map (\<lambda>m. title (cname m)) mixins) @ title (cname c)) = None"
    and ty: "py_type (concat (map (\<lambda>m. title (cname m)) mixins) @ title (cname c)) (mixins @ [c])
               (if truthy attrs then attrs else VDict []) s = (Inr c1, s1)"
    by (auto simp: extend_class_def Let_def split: option.splits pyval.splits sum.splits if_splits)
  from ty have s1: "sys_modules s1 = sys_modules s" "next_id s1 = Suc (next_id s)" "cid c1 = next_id s"
    by (auto simp: py_type_def split: pyval.splits if_splits option.splits)
  from py_type_state_independent [OF ty s1(1)] obtain c2 where c2:
    "py_type (concat (map (\<lambda>m. title (cname m)) mixins) @ title (cname c)) (mixins @ [c])
       (if truthy attrs then attrs else VDict []) s1 = (Inr c2, s1\<lparr>next_id := Suc (next_id s1)\<rparr>)"
    "cid c2 = next_id s1" "cname c2 = cname c1" "cbases c2 = cbases c1"
    by blast
  from ns s1(1) have ns1: "sys_modules s1 this_module = Some ns" by simp
  from c ns1 sub tab c2(1) have "extend_class cls mixins attrs s1 = (Inr c2, s1\<lparr>next_id := Suc (next_id s1)\<rparr>)"
    by (auto simp: extend_class_def Let_def)
  moreover from c2(2) s1(2,3) have "cid c2 \<noteq> cid c1" by simp
  ultimately show ?thesis using c2(3,4) by blast
qed

text \<open>
  When the table has no class under the composite name, the call gives back the class
  it was given, in an unchanged state, exactly when \<^verbatim>\<open>issubclass(cls, mixins)\<close>
  holds, that is, when the class derives from at least one of the mixins.
\<close>

lemma extend_class_early_return_iff:
  assumes "sys_modules s this_module = Some ns"
    and "classes_in_frame ns (concat (map (\<lambda>m. title (cname m)) mixins) @ title (cname c)) = None"
  shows "extend_class (VClass c) mixins attrs s = (Inr c, s) \<longleftrightarrow> issubclass_tuple c mixins"
proof
  assume "issubclass_tuple c mixins"
  with assms(1) show "extend_class (VClass c) mixins attrs s = (Inr c, s)"
    by (simp add: extend_class_def)
next
  assume r: "extend_class (VClass c) mixins attrs s = (Inr c, s)"
  show "issubclass_tuple c mixins"
  proof (rule ccontr)
    assume "\<not> issubclass_tuple c mixins"
    with assms r have "py_type (concat (map (\<lambda>m. title (cname m)) mixins) @ title (cname c))
        (mixins @ [c]) (if truthy attrs then attrs else VDict []) s = (Inr c, s)"
      by (simp add: extend_class_def Let_def)
    moreover have "next_id s' = Suc (next_id s)"
      if "py_type name bases d s = (Inr c', s')" for name bases d c' s'
      using that by (auto simp: py_type_def split: pyval.splits if_splits option.splits)
    ultimately have "next_id s = Suc (next_id s)" by blast
    then show False by simp
  qed
qed

section \<open>The claims about \<^verbatim>\<open>extend_class\<close>\<close>

text \<open>
  C1.  The claim: when \<open>C\<close> is not yet a subclass of the mixins and the composite name is
  not defined, two calls of \<^verbatim>\<open>extend_class(C, M)\<close> return the identical class object.
  The code looks the composite name up in the table of module classes, but the class
  \<^verbatim>\<open>type\<close> creates is never put there.  On \<open>Foo\<close> and \<open>Mix\<close> the first call
  returns object 100 and the second call, in the state the first one left, returns
  object 101: two classes of the same name.
\<close>

theorem extend_class_twice_two_classes:
  "\<not> issubclass_tuple Foo [Mix] \<and>
   classes_in_frame typing_ns ''MixFoo'' = None \<and>
   extend_class (VClass Foo) [Mix] VNone s0 = (Inr (MixFoo_at 100), s0\<lparr>next_id := 101\<rparr>) \<and>
   extend_class (VClass Foo) [Mix] VNone (s0\<lparr>next_id := 101\<rparr>)
     = (Inr (MixFoo_at 101), s0\<lparr>next_id := 102\<rparr>) \<and>
   cid (MixFoo_at 100) \<noteq> cid (MixFoo_at 101)"
proof -
  have b: "sys_modules (s0\<lparr>next_id := 101\<rparr>) this_module = Some typing_ns"
    by (simp add: s0_def this_module_def)
  from extend_Foo_Mix [OF s0_typing_ns] extend_Foo_Mix [OF b] s0_next_id Foo_not_Mix
    typing_ns_classes(1)
  show ?thesis by (simp add: MixFoo_at_def)
qed

text \<open>
  C2.  The claim: \<^verbatim>\<open>extend_class\<close> returns the base class unchanged exactly when it
  has all the requested mixins as ancestors, and a composite class when it lacks any.
  \<^verbatim>\<open>issubclass(cls, mixins)\<close> with a tuple holds as soon as one entry is an ancestor:
  \<open>MixedFoo\<close> derives from \<open>Mix\<close> and not from \<open>Extra\<close>, and the call with both
  mixins returns \<open>MixedFoo\<close> itself.
\<close>

theorem extend_class_returns_partly_extended_base:
  "issubclass MixedFoo Mix \<and> \<not> issubclass MixedFoo Extra \<and>
   extend_class (VClass MixedFoo) [Mix, Extra] VNone s0 = (Inr MixedFoo, s0)"
  by (simp add: extend_class_def issubclass_tuple_def issubclass_def class_defs s0_typing_ns)

text \<open>
  C3.  The claim: a class that \<^verbatim>\<open>extend_class\<close> creates is visible in the module's
  table of classes after the call, under its name.  After the call on \<open>Foo\<close> and
  \<open>Mix\<close> the namespace of the module is the one from before, and it has no class
  under the name of the class returned.
\<close>

theorem extend_class_leaves_table_unchanged:
  "extend_class (VClass Foo) [Mix] VNone s0 = (Inr (MixFoo_at 100), s0\<lparr>next_id := 101\<rparr>) \<and>
   sys_modules (s0\<lparr>next_id := 101\<rparr>) this_module = Some typing_ns \<and>
   classes_in_frame typing_ns (cname (MixFoo_at 100)) = None"
proof -
  from extend_Foo_Mix [OF s0_typing_ns] s0_next_id s0_typing_ns typing_ns_classes(1)
  show ?thesis by (simp add: MixFoo_at_def)
qed

text \<open>
  C4, as stated: the name of a new composite class is made of the mixin names and the base
  name, each capitalized.  The code title-cases them: for the mixin \<open>my_mixin\<close> the
  class is called \<open>My_MixinFoo\<close>, the capitalized names give \<open>My_mixinFoo\<close>.
\<close>

theorem composite_name_is_not_capitalized:
  "extend_class (VClass Foo) [my_mixin] VNone s0 = (Inr My_MixinFoo, s0\<lparr>next_id := 101\<rparr>) \<and>
   cname My_MixinFoo = ''My_MixinFoo'' \<and>
   spec_composite_name [my_mixin] Foo = ''My_mixinFoo'' \<and>
   cname My_MixinFoo \<noteq> spec_composite_name [my_mixin] Foo"
  using extend_Foo_my_mixin
  by (simp add: My_MixinFoo_def spec_composite_name_def capitalize_examples class_defs)

text \<open>
  C4, amended: when \<^verbatim>\<open>extend_class\<close> creates a class (the call returns a class and
  has taken a new object identity), the name of the class is the concatenation of the
  title-cased mixin names, in the given order, followed by the title-cased name of the
  base class, and its bases are the mixins in the given order followed by the base
  class, where the base class is the class passed or the class the table has under the
  name passed.
\<close>

theorem extend_class_new_class_name_and_bases:
  assumes "extend_class cls mixins attrs s = (Inr c', s')" and "next_id s' \<noteq> next_id s"
  shows "\<exists>c. (cls = VClass c \<or>
              (\<exists>n ns. cls = VStr n \<and> sys_modules s this_module = Some ns \<and>
                      classes_in_frame ns n = Some c)) \<and>
             cname c' = concat (map (\<lambda>m. title (cname m)) mixins) @ title (cname c) \<and>
             cbases c' = mixins @ [c] \<and>
             cid c' = next_id s"
  using assms
  by (auto simp: extend_class_def Let_def split: option.splits pyval.splits sum.splits if_splits
      dest!: py_type_result)

theorem extend_class_new_class_name_and_bases_witness:
  "extend_class (VClass Foo) [my_mixin] VNone s0 = (Inr My_MixinFoo, s0\<lparr>next_id := 101\<rparr>) \<and>
   next_id (s0\<lparr>next_id := 101\<rparr>) \<noteq> next_id s0 \<and>
   cname My_MixinFoo = concat (map (\<lambda>m. title (cname m)) [my_mixin]) @ title (cname Foo) \<and>
   cbases My_MixinFoo = [my_mixin] @ [Foo] \<and>
   cid My_MixinFoo = next_id s0"
proof -
  have n: "next_id (s0\<lparr>next_id := 101\<rparr>) \<noteq> next_id s0"
    by (simp add: s0_def)
  from extend_class_new_class_name_and_bases [OF extend_Foo_my_mixin n] extend_Foo_my_mixin n
  show ?thesis by auto
qed

text \<open>
  C5.  A string as base class is looked up in the table of the module's classes: a name
  the table does not have raises \<^verbatim>\<open>KeyError\<close> with that name and leaves the state as
  it was, and for a name the table has the call is the call on the class bound to it.
\<close>

theorem extend_class_base_name_lookup:
  assumes "sys_modules s this_module = Some ns"
  shows "(classes_in_frame ns n = None \<longrightarrow>
            extend_class (VStr n) mixins attrs s = (Inl (KeyError n), s)) \<and>
         (\<forall>c. classes_in_frame ns n = Some c \<longrightarrow>
            extend_class (VStr n) mixins attrs s = extend_class (VClass c) mixins attrs s)"
  using assms by (simp add: extend_class_def)

theorem extend_class_base_name_lookup_witness:
  "sys_modules s0 this_module = Some typing_ns \<and>
   classes_in_frame typing_ns ''StringList'' = None \<and>
   extend_class (VStr ''StringList'') [Mix] VNone s0 = (Inl (KeyError ''StringList''), s0) \<and>
   classes_in_frame typing_ns ''Placeholder'' = Some Placeholder \<and>
   extend_class (VStr ''Placeholder'') [Mix] VNone s0
     = extend_class (VClass Placeholder) [Mix] VNone s0"
proof -
  from extend_class_base_name_lookup [OF s0_typing_ns, of "''StringList''" "[Mix]" VNone]
       extend_class_base_name_lookup [OF s0_typing_ns, of "''Placeholder''" "[Mix]" VNone]
       typing_ns_classes(3,4) s0_typing_ns
  show ?thesis by simp
qed

section \<open>The claim about \<^verbatim>\<open>class_path\<close>\<close>

text \<open>
  C9.  For every object, \<^verbatim>\<open>class_path\<close> is the module of the object's class, a dot
  and the name of the class, unless the module is \<^verbatim>\<open>builtins\<close>, \<^verbatim>\<open>__builtin__\<close> or
  \<^verbatim>\<open>__main__\<close>, when it is the name of the class alone.  For the number 5 it is
  \<open>int\<close>, for an instance of \<open>Foo\<close> of module \<^verbatim>\<open>pkg.mod\<close> it is \<open>pkg.mod.Foo\<close>.
\<close>

theorem class_path_label:
  "(\<forall>m. cmodule (type_of obj) = Some m \<and> m \<notin> {''builtins'', ''__builtin__'', ''__main__''} \<longrightarrow>
        class_path obj = m @ ''.'' @ cname (type_of obj)) \<and>
   (\<forall>m. cmodule (type_of obj) = Some m \<and> m \<in> {''builtins'', ''__builtin__'', ''__main__''} \<longrightarrow>
        class_path obj = cname (type_of obj)) \<and>
   class_path (VInt 5) = ''int'' \<and>
   class_path (VInstance Foo None) = ''pkg.mod.Foo''"
  by (auto simp: class_path_def class_defs)

theorem class_path_label_witness:
  "cmodule (type_of (VInstance Foo None)) = Some ''pkg.mod'' \<and>
   ''pkg.mod'' \<notin> {''builtins'', ''__builtin__'', ''__main__''} \<and>
   class_path (VInstance Foo None) = ''pkg.mod'' @ ''.'' @ cname (type_of (VInstance Foo None)) \<and>
   cmodule (type_of (VInt 5)) = Some ''builtins'' \<and>
   ''builtins'' \<in> {''builtins'', ''__builtin__'', ''__main__''} \<and>
   class_path (VInt 5) = cname (type_of (VInt 5))"
proof -
  have a: "cmodule (type_of (VInstance Foo None)) = Some ''pkg.mod''"
    by (simp add: class_defs)
  have b: "''pkg.mod'' \<notin> {''builtins'', ''__builtin__'', ''__main__''}"
    by simp
  have c: "cmodule (type_of (VInt 5)) = Some ''builtins''"
    by (simp add: class_defs)
  have d: "''builtins'' \<in> {''builtins'', ''__builtin__'', ''__main__''}"
    by simp
  from class_path_label [of "VInstance Foo None"] a
  have e: "class_path (VInstance Foo None) = ''pkg.mod'' @ ''.'' @ cname (type_of (VInstance Foo None))"
    by simp
  from class_path_label [of "VInt 5"] c
  have f: "class_path (VInt 5) = cname (type_of (VInt 5))"
    by simp
  from a c e f show ?thesis by simp
qed

section \<open>The claims about the relaxed \<^verbatim>\<open>isinstance\<close>\<close>




lemma py_all_True_iff: "py_all rs = Inr True \<longleftrightarrow> (\<forall>r\<in>set rs. r = Inr True)"
  by (induction rs rule: py_all.induct) auto





lemma isinstance_generic_unfold:
  "isinstance rt v (TGeneric c args) =
     (case class_instancecheck rt v c of
        Inl e \<Rightarrow> Inl e
      | Inr b \<Rightarrow>
          if b
          then (case py_iter v of
                  None \<Rightarrow> Inl (TypeError NotIterable)
                | Some xs \<Rightarrow>
                    py_all (map (\<lambda>(arg, typ_arg). builtin_isinstance rt arg typ_arg) (zip xs args)))
          else Inr False)"
  by (simp add: isinstance_def split: option.splits sum.splits)


lemmas builtin_class_defs = object_cls_def builtin_class_def int_cls_def str_cls_def
  list_cls_def tuple_cls_def bool_cls_def

lemmas rt0_defs = class_instancecheck_def rt0_def sequence_hook_def issubclass_def
  Sequence_cls_def Reversible_cls_def Collection_cls_def abc_class_def Closable_def
  user_class_def builtin_class_defs

lemma rt0_checks:
  "class_instancecheck rt0 (VList xs) list_cls = Inr True"
  "class_instancecheck rt0 (VList xs) str_cls = Inr False"
  "class_instancecheck rt0 (VInt i) int_cls = Inr True"
  "class_instancecheck rt0 (VStr s) str_cls = Inr True"
  "class_instancecheck rt0 (VStr s) int_cls = Inr False"
  "class_instancecheck rt0 (VBool b) int_cls = Inr True"
  "class_instancecheck rt0 (VBool b) str_cls = Inr False"
  "class_instancecheck rt0 (VTuple xs) list_cls = Inr False"
  "class_instancecheck rt0 (VList xs) Sequence_cls = Inr True"
  "class_instancecheck rt0 (VInt i) Sequence_cls = Inr False"
  "class_instancecheck rt0 (VInt i) Closable = Inl (TypeError NotRuntimeProtocol)"
  by (simp_all add: rt0_defs)

text \<open>
  Inside the module the name \<^verbatim>\<open>isinstance\<close> is the module's own function, so the
  test \<^verbatim>\<open>isinstance(cls, str)\<close> of \<^verbatim>\<open>extend_class\<close> is the relaxed check.  On a
  class it is the builtin check, which is how \<open>extend_class\<close> above has it: a string
  is looked up, a class object is not.
\<close>

lemma isinstance_plain_class:
  "isinstance rt v (TClass c) = builtin_isinstance rt v (TClass c)"
  by (simp add: isinstance_def)

lemma isinstance_str:
  "isinstance rt (VStr n) (TClass str_cls) = Inr True"
  "isinstance rt0 (VClass c) (TClass str_cls) = Inr False"
  by (simp_all add: isinstance_def rt0_defs type_cls_def)




lemma zip_take_args: "zip (take (length ys) xs) ys = zip xs ys"
proof (induction ys arbitrary: xs)
  case Nil
  show ?case by simp
next
  case (Cons y ys)
  then show ?case by (cases xs) simp_all
qed

lemma generic_True_iff:
  "isinstance rt v (TGeneric c args) = Inr True \<longleftrightarrow>
     class_instancecheck rt v c = Inr True \<and>
     (\<exists>xs. py_iter v = Some xs \<and>
           (\<forall>(x, t)\<in>set (zip xs args). builtin_isinstance rt x t = Inr True))"
  by (auto simp: isinstance_generic_unfold py_all_True_iff split: option.splits sum.splits)

lemma generic_prefix_only:
  assumes "class_instancecheck rt w c = class_instancecheck rt v c"
    and "map_option (take (length args)) (py_iter w) = map_option (take (length args)) (py_iter v)"
  shows "isinstance rt w (TGeneric c args) = isinstance rt v (TGeneric c args)"
proof (cases "py_iter w")
  case None
  with assms(2) have "py_iter v = None" by (cases "py_iter v") simp_all
  with None assms(1) show ?thesis
    by (simp add: isinstance_generic_unfold cong: sum.case_cong if_cong)
next
  case (Some ws)
  with assms(2) obtain vs where vs: "py_iter v = Some vs" "take (length args) ws = take (length args) vs"
    by (cases "py_iter v") simp_all
  have "zip ws args = zip vs args"
    using zip_take_args [of args ws] zip_take_args [of args vs] vs(2) by simp
  with Some vs(1) assms(1) show ?thesis
    by (simp add: isinstance_generic_unfold cong: sum.case_cong if_cong)
qed


text \<open>
  C7, as stated: the result is true exactly when the value is an instance of the origin and
  the paired elements pass the builtin check, and, in particular, an empty container
  passes against any parameterized specification.  The empty tuple is an empty
  container, and against \<^verbatim>\<open>list[int]\<close> the result is false: it is no list.
\<close>

theorem empty_tuple_fails_list_spec:
  "py_iter (VTuple []) = Some [] \<and>
   isinstance rt0 (VTuple []) (TGeneric list_cls [TClass int_cls]) = Inr False \<and>
   isinstance rt0 (VTuple []) (TGeneric list_cls [TClass int_cls]) \<noteq> Inr True"
  by (simp add: isinstance_generic_unfold rt0_checks)

text \<open>
  C7, amended: for a parameterized type the result is true exactly when the value passes
  the builtin check against the origin, can be iterated, and every element paired with a
  type argument passes the builtin check.  The result depends on the outcome of the
  origin check and on the first elements of the value only, as many as there are type
  arguments.  An empty container passes when it is an instance of the origin, and a value
  that is no instance of the origin fails, empty or not.  The witness includes the
  list \<^verbatim>\<open>[1, 2, 3]\<close> against \<^verbatim>\<open>Sequence[int]\<close>.
\<close>

theorem isinstance_parameterized:
  "(isinstance rt v (TGeneric c args) = Inr True \<longleftrightarrow>
      builtin_isinstance rt v (TClass c) = Inr True \<and>
      (\<exists>xs. py_iter v = Some xs \<and>
            (\<forall>(x, t)\<in>set (zip xs args). builtin_isinstance rt x t = Inr True))) \<and>
   (\<forall>w. builtin_isinstance rt w (TClass c) = builtin_isinstance rt v (TClass c) \<and>
        map_option (take (length args)) (py_iter w) = map_option (take (length args)) (py_iter v) \<longrightarrow>
        isinstance rt w (TGeneric c args) = isinstance rt v (TGeneric c args)) \<and>
   (builtin_isinstance rt v (TClass c) = Inr True \<and> py_iter v = Some [] \<longrightarrow>
      isinstance rt v (TGeneric c args) = Inr True) \<and>
   (builtin_isinstance rt v (TClass c) = Inr False \<longrightarrow>
      isinstance rt v (TGeneric c args) = Inr False)"
proof (intro conjI allI impI)
  show "isinstance rt v (TGeneric c args) = Inr True \<longleftrightarrow>
      builtin_isinstance rt v (TClass c) = Inr True \<and>
      (\<exists>xs. py_iter v = Some xs \<and>
            (\<forall>(x, t)\<in>set (zip xs args). builtin_isinstance rt x t = Inr True))"
    using generic_True_iff [of rt v c args] by simp
next
  fix w
  assume "builtin_isinstance rt w (TClass c) = builtin_isinstance rt v (TClass c) \<and>
        map_option (take (length args)) (py_iter w) = map_option (take (length args)) (py_iter v)"
  then show "isinstance rt w (TGeneric c args) = isinstance rt v (TGeneric c args)"
    by (intro generic_prefix_only) simp_all
next
  assume "builtin_isinstance rt v (TClass c) = Inr True \<and> py_iter v = Some []"
  then show "isinstance rt v (TGeneric c args) = Inr True"
    by (simp add: isinstance_generic_unfold)
next
  assume "builtin_isinstance rt v (TClass c) = Inr False"
  then show "isinstance rt v (TGeneric c args) = Inr False"
    by (simp add: isinstance_generic_unfold)
qed

theorem isinstance_parameterized_witness:
  "builtin_isinstance rt0 (VList [VInt 1, VStr ''x'']) (TClass list_cls) = Inr True \<and>
   py_iter (VList [VInt 1, VStr ''x'']) = Some [VInt 1, VStr ''x''] \<and>
   builtin_isinstance rt0 (VInt 1) (TClass int_cls) = Inr True \<and>
   builtin_isinstance rt0 (VStr ''x'') (TClass str_cls) = Inr True \<and>
   isinstance rt0 (VList [VInt 1, VStr ''x'']) (TGeneric list_cls [TClass int_cls, TClass str_cls])
     = Inr True \<and>
   isinstance rt0 (VList [VInt 1, VStr ''x'', VNone]) (TGeneric list_cls [TClass int_cls, TClass str_cls])
     = isinstance rt0 (VList [VInt 1, VStr ''x'']) (TGeneric list_cls [TClass int_cls, TClass str_cls]) \<and>
   isinstance rt0 (VList []) (TGeneric list_cls [TClass int_cls, TClass str_cls]) = Inr True \<and>
   builtin_isinstance rt0 (VTuple []) (TClass list_cls) = Inr False \<and>
   isinstance rt0 (VTuple []) (TGeneric list_cls [TClass int_cls, TClass str_cls]) = Inr False \<and>
   builtin_isinstance rt0 (VList [VInt 1, VInt 2, VInt 3]) (TClass Sequence_cls) = Inr True \<and>
   isinstance rt0 (VList [VInt 1, VInt 2, VInt 3]) (TGeneric Sequence_cls [TClass int_cls]) = Inr True"
proof -
  let ?v = "VList [VInt 1, VStr ''x'']" and ?args = "[TClass int_cls, TClass str_cls]"
  have a: "builtin_isinstance rt0 ?v (TClass list_cls) = Inr True"
    by (simp add: rt0_checks)
  have b: "py_iter ?v = Some [VInt 1, VStr ''x'']"
    by simp
  have c1: "builtin_isinstance rt0 (VInt 1) (TClass int_cls) = Inr True"
    by (simp add: rt0_checks)
  have c2: "builtin_isinstance rt0 (VStr ''x'') (TClass str_cls) = Inr True"
    by (simp add: rt0_checks)
  from c1 c2 have c: "\<forall>(x, t)\<in>set (zip [VInt 1, VStr ''x''] ?args). builtin_isinstance rt0 x t = Inr True"
    by simp
  have d: "isinstance rt0 ?v (TGeneric list_cls ?args) = Inr True"
    by (rule isinstance_parameterized [of rt0 ?v list_cls ?args, THEN conjunct1, THEN iffD2])
       (intro conjI exI [of _ "[VInt 1, VStr ''x'']"] a b c)
  have e: "isinstance rt0 (VList [VInt 1, VStr ''x'', VNone]) (TGeneric list_cls ?args)
           = isinstance rt0 ?v (TGeneric list_cls ?args)"
    by (rule isinstance_parameterized [of rt0 ?v list_cls ?args, THEN conjunct2, THEN conjunct1, rule_format])
       (simp add: rt0_checks)
  have f0: "builtin_isinstance rt0 (VList []) (TClass list_cls) = Inr True"
    by (simp add: rt0_checks)
  have f: "isinstance rt0 (VList []) (TGeneric list_cls ?args) = Inr True"
    by (rule isinstance_parameterized [of rt0 "VList []" list_cls ?args,
          THEN conjunct2, THEN conjunct2, THEN conjunct1, rule_format])
       (use f0 in simp)
  have g0: "builtin_isinstance rt0 (VTuple []) (TClass list_cls) = Inr False"
    by (simp add: rt0_checks)
  have g: "isinstance rt0 (VTuple []) (TGeneric list_cls ?args) = Inr False"
    by (rule isinstance_parameterized [of rt0 "VTuple []" list_cls ?args,
          THEN conjunct2, THEN conjunct2, THEN conjunct2, rule_format])
       (rule g0)
  let ?l = "VList [VInt 1, VInt 2, VInt 3]"
  have h0: "builtin_isinstance rt0 ?l (TClass Sequence_cls) = Inr True"
    by (simp add: rt0_checks)
  have h1: "\<forall>(x, t)\<in>set (zip [VInt 1, VInt 2, VInt 3] [TClass int_cls]).
              builtin_isinstance rt0 x t = Inr True"
    by (simp add: rt0_checks)
  have h2: "py_iter ?l = Some [VInt 1, VInt 2, VInt 3]" by simp
  have h: "isinstance rt0 ?l (TGeneric Sequence_cls [TClass int_cls]) = Inr True"
    by (rule isinstance_parameterized [of rt0 ?l Sequence_cls "[TClass int_cls]",
          THEN conjunct1, THEN iffD2])
       (intro conjI exI [of _ "[VInt 1, VInt 2, VInt 3]"] h0 h2 h1)
  from a b c1 c2 d e f g0 g h0 h show ?thesis by (intro conjI)
qed









section \<open>The claim about \<^verbatim>\<open>wrap_object\<close>\<close>

lemma bind_keywords_first_other:
  "\<forall>kv\<in>set pre. fst kv = ''attrs'' \<Longrightarrow> k \<noteq> ''attrs'' \<Longrightarrow>
   bind_keywords (pre @ (k, x) # post) a
     = Inl (TypeError (if k = ''cls'' then MultipleValues k else UnexpectedKeyword k))"
proof (induction pre arbitrary: a)
  case Nil
  then show ?case by simp
next
  case (Cons kv pre)
  obtain k0 v0 where kv: "kv = (k0, v0)" by (cases kv)
  with Cons.prems(1) have "k0 = ''attrs''" by simp
  with kv Cons.IH [of v0] Cons.prems show ?case by simp
qed

lemma get_parent_class_int: "get_parent_class (VInt i) s = Inr (VClass int_cls)"
  by (simp add: get_parent_class_def)

text \<open>
  C10, as stated: a call of \<^verbatim>\<open>wrap_object\<close> with a keyword other than \<^verbatim>\<open>attrs\<close>
  raises the \<^verbatim>\<open>TypeError\<close> for an unexpected keyword.  The keyword \<^verbatim>\<open>cls\<close> names
  the first parameter of \<^verbatim>\<open>extend_class\<close>, which the positional argument has bound:
  the call raises the \<^verbatim>\<open>TypeError\<close> for a second value of that parameter.
\<close>

theorem wrap_object_cls_keyword_is_second_value:
  "get_parent_class (VInt 5) s0 = Inr (VClass int_cls) \<and>
   wrap_object retag (VInt 5) [Mix] [(''cls'', VInt 1)] s0
     = (Inl (TypeError (MultipleValues ''cls'')), s0) \<and>
   wrap_object retag (VInt 5) [Mix] [(''cls'', VInt 1)] s0
     \<noteq> (Inl (TypeError (UnexpectedKeyword ''cls'')), s0)"
  by (simp add: wrap_object_def get_parent_class_int)

text \<open>
  C10, amended.  Let \<open>k\<close> be the first keyword of the call other than \<^verbatim>\<open>attrs\<close>.
  When one of the keywords is \<^verbatim>\<open>__obj\<close>, the call raises the \<^verbatim>\<open>TypeError\<close> for a
  second value of \<^verbatim>\<open>__obj\<close>, for every object.  Otherwise, when
  \<^verbatim>\<open>get_parent_class\<close> returns for the object, the call raises the \<^verbatim>\<open>TypeError\<close>
  of binding \<open>k\<close> in \<^verbatim>\<open>extend_class\<close>: a second value when \<open>k\<close> is \<^verbatim>\<open>cls\<close>,
  an unexpected keyword for any other name.  In both cases the state is the one from
  before, so no class has been created.  With the single keyword \<^verbatim>\<open>attrs\<close> the
  call is \<^verbatim>\<open>extend_class\<close> with that value as its \<open>attrs\<close>, followed by the
  construction.
\<close>

theorem wrap_object_rejects_keywords:
  assumes "kwargs = pre @ (k, x) # post" and "\<forall>kv\<in>set pre. fst kv = ''attrs''"
    and "k \<noteq> ''attrs''"
  shows "(''__obj'' \<in> fst ` set kwargs \<longrightarrow>
            wrap_object construct obj mixins kwargs s
              = (Inl (TypeError (MultipleValues ''__obj'')), s)) \<and>
         (''__obj'' \<notin> fst ` set kwargs \<and> get_parent_class obj s = Inr cls \<longrightarrow>
            wrap_object construct obj mixins kwargs s
              = (Inl (TypeError (if k = ''cls'' then MultipleValues k
                                 else UnexpectedKeyword k)), s)) \<and>
         (get_parent_class obj s = Inr cls \<longrightarrow>
            wrap_object construct obj mixins [(''attrs'', d)] s
              = (case extend_class cls mixins d s of
                   (Inl e, s') \<Rightarrow> (Inl e, s')
                 | (Inr c, s') \<Rightarrow> (construct c obj, s')))"
proof (intro conjI impI)
  assume "''__obj'' \<in> fst ` set kwargs"
  then show "wrap_object construct obj mixins kwargs s
              = (Inl (TypeError (MultipleValues ''__obj'')), s)"
    by (simp add: wrap_object_def)
next
  assume a: "''__obj'' \<notin> fst ` set kwargs \<and> get_parent_class obj s = Inr cls"
  from bind_keywords_first_other [OF assms(2,3), of x post VNone] assms(1)
  have "bind_keywords kwargs VNone
     = Inl (TypeError (if k = ''cls'' then MultipleValues k else UnexpectedKeyword k))"
    by simp
  with a show "wrap_object construct obj mixins kwargs s
              = (Inl (TypeError (if k = ''cls'' then MultipleValues k
                                 else UnexpectedKeyword k)), s)"
    by (simp add: wrap_object_def)
next
  assume "get_parent_class obj s = Inr cls"
  then show "wrap_object construct obj mixins [(''attrs'', d)] s
              = (case extend_class cls mixins d s of
                   (Inl e, s') \<Rightarrow> (Inl e, s')
                 | (Inr c, s') \<Rightarrow> (construct c obj, s'))"
    by (simp add: wrap_object_def)
qed

theorem wrap_object_rejects_keywords_witness:
  "[(''color'', VInt 1)] = [] @ (''color'', VInt 1) # [] \<and>
   ''color'' \<noteq> ''attrs'' \<and>
   ''__obj'' \<notin> fst ` set [(''color'', VInt 1)] \<and>
   get_parent_class (VInt 5) s0 = Inr (VClass int_cls) \<and>
   wrap_object retag (VInt 5) [Mix] [(''color'', VInt 1)] s0
     = (Inl (TypeError (UnexpectedKeyword ''color'')), s0) \<and>
   [(''attrs'', VNone), (''__obj'', VInt 1)] = [(''attrs'', VNone)] @ (''__obj'', VInt 1) # [] \<and>
   ''__obj'' \<in> fst ` set [(''attrs'', VNone), (''__obj'', VInt 1)] \<and>
   wrap_object retag (VInstance Foo None) [Mix] [(''attrs'', VNone), (''__obj'', VInt 1)] s0
     = (Inl (TypeError (MultipleValues ''__obj'')), s0) \<and>
   wrap_object retag (VInt 5) [Mix] [(''attrs'', VDict [(VStr ''x'', VInt 1)])] s0
     = (case extend_class (VClass int_cls) [Mix] (VDict [(VStr ''x'', VInt 1)]) s0 of
          (Inl e, s') \<Rightarrow> (Inl e, s')
        | (Inr c, s') \<Rightarrow> (retag c (VInt 5), s'))"
proof -
  have a: "[(''color'', VInt 1)] = [] @ (''color'', VInt 1) # []" by simp
  have b: "\<forall>kv\<in>set []. fst kv = ''attrs''" by simp
  have c: "''color'' \<noteq> ''attrs''" by simp
  have n: "''__obj'' \<notin> fst ` set [(''color'', VInt 1)]" by simp
  have g: "get_parent_class (VInt 5) s0 = Inr (VClass int_cls)"
    by (rule get_parent_class_int)
  from wrap_object_rejects_keywords [OF a b c, where construct = retag and obj = "VInt 5"
      and mixins = "[Mix]" and s = s0 and cls = "VClass int_cls"] n g
  have w: "wrap_object retag (VInt 5) [Mix] [(''color'', VInt 1)] s0
     = (Inl (TypeError (UnexpectedKeyword ''color'')), s0)"
    by simp
  have a2: "[(''attrs'', VNone), (''__obj'', VInt 1)] = [(''attrs'', VNone)] @ (''__obj'', VInt 1) # []"
    by simp
  have b2: "\<forall>kv\<in>set [(''attrs'', VNone)]. fst kv = ''attrs''" by simp
  have c2: "''__obj'' \<noteq> ''attrs''" by simp
  have m: "''__obj'' \<in> fst ` set [(''attrs'', VNone), (''__obj'', VInt 1)]" by simp
  from wrap_object_rejects_keywords [OF a2 b2 c2, where construct = retag
      and obj = "VInstance Foo None" and mixins = "[Mix]" and s = s0] m
  have w2: "wrap_object retag (VInstance Foo None) [Mix] [(''attrs'', VNone), (''__obj'', VInt 1)] s0
     = (Inl (TypeError (MultipleValues ''__obj'')), s0)"
    by simp
  from wrap_object_rejects_keywords [OF a b c, where construct = retag and obj = "VInt 5"
      and mixins = "[Mix]" and s = s0 and cls = "VClass int_cls"
      and d = "VDict [(VStr ''x'', VInt 1)]"] g
  have w3: "wrap_object retag (VInt 5) [Mix] [(''attrs'', VDict [(VStr ''x'', VInt 1)])] s0
     = (case extend_class (VClass int_cls) [Mix] (VDict [(VStr ''x'', VInt 1)]) s0 of
          (Inl e, s') \<Rightarrow> (Inl e, s')
        | (Inr c, s') \<Rightarrow> (retag c (VInt 5), s'))"
    by simp
  from a c n g w a2 m w2 w3 show ?thesis by (intro conjI)
qed

end
